theory Spec2Isabelle
  imports Main
begin

section \<open>JavaScript values\<close>

text \<open>
  The values that \<^verbatim>\<open>Service.js\<close> handles are dynamically typed. A function value is
  an identifier: what calling it does is given by the caller of the model as a parameter.
  An object is the list of its own enumerable properties in insertion order (keys are
  distinct in every object JavaScript builds); an array is the list of its elements. Named
  properties of arrays and of functions are not part of a value.
\<close>

datatype jsval =
    JUndef
  | JNull
  | JBool bool
  | JNum int
  | JStr string
  | JFun nat
  | JObj "(string \<times> jsval) list"
  | JArr "jsval list"

type_synonym props = "(string \<times> jsval) list"

text \<open>
  What a call can throw: a \<^verbatim>\<open>TypeError\<close> of the language (a member of
  \<^verbatim>\<open>undefined\<close>, a call of a non-function, a path function given a non-string), the
  \<^verbatim>\<open>SError\<close> of the utilities package around a value, or whatever external code threw.
\<close>

datatype error = TypeError | SError jsval | Thrown jsval

fun truthy :: "jsval \<Rightarrow> bool" where
  "truthy JUndef = False"
| "truthy JNull = False"
| "truthy (JBool b) = b"
| "truthy (JNum n) = (n \<noteq> 0)"
| "truthy (JStr s) = (s \<noteq> [])"
| "truthy (JFun f) = True"
| "truthy (JObj ps) = True"
| "truthy (JArr xs) = True"

fun typeof :: "jsval \<Rightarrow> string" where
  "typeof JUndef = ''undefined''"
| "typeof JNull = ''object''"
| "typeof (JBool b) = ''boolean''"
| "typeof (JNum n) = ''number''"
| "typeof (JStr s) = ''string''"
| "typeof (JFun f) = ''function''"
| "typeof (JObj ps) = ''object''"
| "typeof (JArr xs) = ''object''"

text \<open>\<^verbatim>\<open>a || b\<close>\<close>

definition js_or :: "jsval \<Rightarrow> jsval \<Rightarrow> jsval" where
  "js_or a b = (if truthy a then a else b)"

text \<open>
  \<^verbatim>\<open>obj[key]\<close> on the property list of an object, for a key that is an own property
  or that the object does not inherit either: \<^verbatim>\<open>undefined\<close> for a missing key.
\<close>

definition get_prop :: "props \<Rightarrow> string \<Rightarrow> jsval" where
  "get_prop ps k = (case map_of ps k of None \<Rightarrow> JUndef | Some v \<Rightarrow> v)"

text \<open>\<^verbatim>\<open>obj[key] = v\<close>: an existing key keeps its place, a new key goes last.\<close>

fun set_prop :: "props \<Rightarrow> string \<Rightarrow> jsval \<Rightarrow> props" where
  "set_prop [] k v = [(k, v)]"
| "set_prop ((k', v') # ps) k v =
     (if k' = k then (k, v) # ps else (k', v') # set_prop ps k v)"

text \<open>
  \<^verbatim>\<open>v.k\<close> for the member names the service reads (\<^verbatim>\<open>command\<close>, \<^verbatim>\<open>handler\<close>,
  \<^verbatim>\<open>id\<close>, \<^verbatim>\<open>apply\<close>, ...): a \<^verbatim>\<open>TypeError\<close> on \<^verbatim>\<open>undefined\<close> and \<^verbatim>\<open>null\<close>,
  the property of an object, and \<^verbatim>\<open>undefined\<close> on every other value, none of which has
  a member of these names.
\<close>

fun field :: "jsval \<Rightarrow> string \<Rightarrow> jsval" where
  "field (JObj ps) k = get_prop ps k"
| "field v k = JUndef"

fun nullish :: "jsval \<Rightarrow> bool" where
  "nullish JUndef = True"
| "nullish JNull = True"
| "nullish v = False"

definition member :: "jsval \<Rightarrow> string \<Rightarrow> error + jsval" where
  "member v k = (if nullish v then Inl TypeError else Inr (field v k))"

text \<open>The decimal name of an array index.\<close>

fun index_str :: "nat \<Rightarrow> string" where
  "index_str n =
     (if n < 10 then [char_of (48 + n)]
      else index_str (n div 10) @ [char_of (48 + n mod 10)])"

declare index_str.simps [simp del]

text \<open>
  The own enumerable properties \<^verbatim>\<open>Object.assign\<close> copies from a source: those of an
  object, the elements of an array and the characters of a string under their indices,
  nothing for the other values.
\<close>

fun own_props :: "jsval \<Rightarrow> props" where
  "own_props (JObj ps) = ps"
| "own_props (JArr xs) = zip (map index_str [0..<length xs]) xs"
| "own_props (JStr s) = zip (map index_str [0..<length s]) (map (\<lambda>c. JStr [c]) s)"
| "own_props v = []"

text \<open>\<^verbatim>\<open>Object.assign(target, source)\<close>, as the new property list of the target.\<close>

definition object_assign :: "props \<Rightarrow> jsval \<Rightarrow> props" where
  "object_assign target source = fold (\<lambda>(k, v) t. set_prop t k v) (own_props source) target"

section \<open>Strings: command names and slashes\<close>

text \<open>
  The characters \<^verbatim>\<open>\s\<close> matches and \<^verbatim>\<open>trim\<close> removes, among the code units below
  256: tab, line feed, vertical tab, form feed, carriage return, space, no-break space.
\<close>

definition is_space :: "char \<Rightarrow> bool" where
  "is_space c = (c \<in> {CHR 0x09, CHR 0x0A, CHR 0x0B, CHR 0x0C, CHR 0x0D, CHR 0x20, CHR 0xA0})"

text \<open>
  \<^verbatim>\<open>.replace(/\s{2,}/g, ' ')\<close>: every maximal run of two or more whitespace characters
  becomes one space; a single whitespace character stays as it is.
\<close>

function collapse_spaces :: "string \<Rightarrow> string" where
  "collapse_spaces [] = []"
| "collapse_spaces (c # cs) =
     (if is_space c \<and> takeWhile is_space cs \<noteq> []
      then CHR '' '' # collapse_spaces (dropWhile is_space cs)
      else c # collapse_spaces cs)"
  by pat_completeness auto
termination
  by (relation "measure length") (auto simp: length_dropWhile_le less_Suc_eq_le)

text \<open>
  \<^verbatim>\<open>[^[]*]\<close> and \<^verbatim>\<open>[^<]*>\<close> match at the start of a string when the closing bracket
  comes before any opening one.
\<close>

fun closes :: "char \<Rightarrow> char \<Rightarrow> string \<Rightarrow> bool" where
  "closes opn cls [] = False"
| "closes opn cls (x # xs) =
     (if x = cls then True else if x = opn then False else closes opn cls xs)"

definition in_brackets :: "string \<Rightarrow> bool" where
  "in_brackets s = (closes CHR ''['' CHR '']'' s \<or> closes CHR ''<'' CHR ''>'' s)"

text \<open>
  The separator \<^verbatim>\<open>/\s+(?![^[]*]|[^<]*>)/\<close> matches at the start of a string: some
  non-empty run of whitespace there is followed by a rest that the lookahead rejects
  (the greedy \<^verbatim>\<open>\s+\<close> backtracks over every length).
\<close>

fun sep_at :: "string \<Rightarrow> bool" where
  "sep_at [] = False"
| "sep_at (c # cs) = (is_space c \<and> (\<not> in_brackets cs \<or> sep_at cs))"

text \<open>\<^verbatim>\<open>.split(sep)[0]\<close>: the text before the first position where the separator matches.\<close>

fun split_head :: "string \<Rightarrow> string" where
  "split_head [] = []"
| "split_head (c # cs) = (if sep_at (c # cs) then [] else c # split_head cs)"

definition trim :: "string \<Rightarrow> string" where
  "trim s = rev (dropWhile is_space (rev (dropWhile is_space s)))"

definition getCommandName :: "string \<Rightarrow> string" where
  "getCommandName command = trim (split_head (collapse_spaces command))"

text \<open>
  The function on any value: only a string has the \<^verbatim>\<open>replace\<close> method the first step
  calls.
\<close>

fun getCommandName_val :: "jsval \<Rightarrow> error + string" where
  "getCommandName_val (JStr s) = Inr (getCommandName s)"
| "getCommandName_val v = Inl TypeError"

text \<open>\<^verbatim>\<open>/^https?:/.test(val)\<close>\<close>

definition is_http :: "string \<Rightarrow> bool" where
  "is_http val = (take 5 val = ''http:'' \<or> take 6 val = ''https:'')"

text \<open>\<^verbatim>\<open>val.replace(/^([^/.])/, '/$1')\<close>\<close>

fun lead_slash :: "string \<Rightarrow> string" where
  "lead_slash [] = []"
| "lead_slash (c # cs) =
     (if c \<noteq> CHR ''/'' \<and> c \<noteq> CHR ''.'' then CHR ''/'' # c # cs else c # cs)"

text \<open>\<^verbatim>\<open>val.replace(/([^/])$/, '$1/')\<close>\<close>

definition trail_slash :: "string \<Rightarrow> string" where
  "trail_slash val = (if val \<noteq> [] \<and> last val \<noteq> CHR ''/'' then val @ ''/'' else val)"

text \<open>\<^verbatim>\<open>.replace(/^\.\//, '')\<close>\<close>

definition strip_dot_slash :: "string \<Rightarrow> string" where
  "strip_dot_slash val = (if take 2 val = ''./'' then drop 2 val else val)"

text \<open>\<^verbatim>\<open>.replace(/\/$/g, '')\<close>\<close>

definition strip_trail_slash :: "string \<Rightarrow> string" where
  "strip_trail_slash val = (if val \<noteq> [] \<and> last val = CHR ''/'' then butlast val else val)"

definition ensureSlash :: "props \<Rightarrow> string \<Rightarrow> props" where
  "ensureSlash config key =
     (case get_prop config key of
        JStr val \<Rightarrow>
          set_prop config key
            (JStr (trail_slash (if \<not> is_http val then lead_slash val else val)))
      | _ \<Rightarrow> config)"

definition removeSlash :: "props \<Rightarrow> string \<Rightarrow> props" where
  "removeSlash config key =
     (case get_prop config key of
        JStr val \<Rightarrow> set_prop config key (JStr (strip_trail_slash val))
      | _ \<Rightarrow> config)"

section \<open>Project options\<close>

text \<open>
  What \<^verbatim>\<open>loadProjectOptions\<close> and \<^verbatim>\<open>normalizeConfig\<close> take from outside the file:
  the path functions of Node, the file system, the module loader, \<^verbatim>\<open>findExisting\<close> of
  the utilities package, and \<^verbatim>\<open>defaults\<close> and \<^verbatim>\<open>validateSync\<close> of \<^verbatim>\<open>./options\<close>
  (the compiled-in defaults and the schema check, which returns or throws). \<^verbatim>\<open>load\<close>
  is \<^verbatim>\<open>require\<close>; \<^verbatim>\<open>findExisting\<close> gives \<^verbatim>\<open>None\<close> for a falsy result. The last
  three fields are what \<^verbatim>\<open>lodash.defaultsdeep\<close> does outside the merge of plain
  objects: \<^verbatim>\<open>mergeOnto\<close> for a nested pair of objects, arrays or functions of which
  one is an array or a function; \<^verbatim>\<open>mergeBoxed\<close> for the properties of the object
  returned when the destination of the whole call is an array, a function or a primitive
  that lodash boxes; \<^verbatim>\<open>mergeGuarded\<close> for a source key \<^verbatim>\<open>constructor\<close> or
  \<^verbatim>\<open>__proto__\<close>, the two names that the releases of lodash read in their own ways to keep
  a merge from writing to \<^verbatim>\<open>Object.prototype\<close>: from the key, the destination's own
  property of that name (\<^verbatim>\<open>None\<close> when it has none) and the source's value, it gives
  the value assigned to the destination's own property, \<^verbatim>\<open>None\<close> when nothing is
  assigned.
\<close>

record host =
  isAbsolute :: "string \<Rightarrow> bool"
  resolve :: "string \<Rightarrow> string \<Rightarrow> string"
  dirname :: "string \<Rightarrow> string"
  existsSync :: "string \<Rightarrow> bool"
  load :: "string \<Rightarrow> error + jsval"
  findExisting :: "string list \<Rightarrow> string \<Rightarrow> string option"
  defaultConfig :: props
  validateOptions :: "jsval \<Rightarrow> jsval option"
  mergeOnto :: "jsval \<Rightarrow> jsval \<Rightarrow> jsval"
  mergeBoxed :: "jsval \<Rightarrow> props \<Rightarrow> props"
  mergeGuarded :: "string \<Rightarrow> jsval option \<Rightarrow> jsval \<Rightarrow> jsval option"

text \<open>lodash's \<^verbatim>\<open>isObject\<close>: objects, arrays and functions.\<close>

fun isObject :: "jsval \<Rightarrow> bool" where
  "isObject (JObj ps) = True"
| "isObject (JArr xs) = True"
| "isObject (JFun f) = True"
| "isObject v = False"

text \<open>
  The names of the properties of \<^verbatim>\<open>Object.prototype\<close>, which every plain object
  inherits: \<^verbatim>\<open>object[key]\<close> on an object with no own property of such a name reads
  the inherited value, a function (for \<^verbatim>\<open>__proto__\<close>, the prototype itself), and
  \<^verbatim>\<open>key in object\<close> holds.
\<close>

definition object_prototype :: "string list" where
  "object_prototype =
     [''constructor'', ''__defineGetter__'', ''__defineSetter__'', ''hasOwnProperty'',
      ''__lookupGetter__'', ''__lookupSetter__'', ''isPrototypeOf'', ''propertyIsEnumerable'',
      ''toString'', ''valueOf'', ''__proto__'', ''toLocaleString'']"

text \<open>
  \<^verbatim>\<open>lodash.defaultsdeep\<close> is \<^verbatim>\<open>mergeWith\<close> under the customizer that keeps the
  destination's value: \<^verbatim>\<open>customDefaultsMerge objValue srcValue\<close> is the value a key has
  after the merge when the destination reads \<^verbatim>\<open>objValue\<close> there, and
  \<^verbatim>\<open>baseMerge object source\<close> walks the source's properties in order. Two plain objects
  merge recursively; a destination value that is \<^verbatim>\<open>undefined\<close> takes the source's
  value, an object or an array as a fresh one that the source's is merged into
  (\<^verbatim>\<open>cloneEach\<close> for the elements of an array); every other destination value,
  \<^verbatim>\<open>null\<close> included, stays.

  The destination is read as \<^verbatim>\<open>object[key]\<close>, through the prototype: at a key that is
  not an own property of the destination and is one of \<^verbatim>\<open>object_prototype\<close>, the value
  read is the inherited one, which the customizer keeps, and as it is what the destination
  reads already, nothing is assigned: the destination gets no own property of that name.
  (A source object merged at such a key goes into the inherited function, which is not
  part of these values.)
\<close>

fun customDefaultsMerge :: "host \<Rightarrow> jsval \<Rightarrow> jsval \<Rightarrow> jsval"
  and baseMerge :: "host \<Rightarrow> props \<Rightarrow> props \<Rightarrow> props"
  and cloneEach :: "host \<Rightarrow> jsval list \<Rightarrow> jsval list" where
  "customDefaultsMerge h objValue (JObj qs) =
     (case objValue of
        JObj ps \<Rightarrow> JObj (baseMerge h ps qs)
      | JUndef \<Rightarrow> JObj (baseMerge h [] qs)
      | _ \<Rightarrow> if isObject objValue then mergeOnto h objValue (JObj qs) else objValue)"
| "customDefaultsMerge h objValue (JArr xs) =
     (if isObject objValue then mergeOnto h objValue (JArr xs)
      else if objValue = JUndef then JArr (cloneEach h xs)
      else objValue)"
| "customDefaultsMerge h objValue srcValue =
     (if isObject objValue \<and> isObject srcValue then mergeOnto h objValue srcValue
      else if objValue = JUndef then srcValue
      else objValue)"
| "baseMerge h object [] = object"
| "baseMerge h object ((key, srcValue) # source) =
     baseMerge h
       (if key = ''constructor'' \<or> key = ''__proto__'' then
          (case mergeGuarded h key (map_of object key) srcValue of
             None \<Rightarrow> object
           | Some newValue \<Rightarrow> set_prop object key newValue)
        else
          (case map_of object key of
             Some objValue \<Rightarrow> set_prop object key (customDefaultsMerge h objValue srcValue)
           | None \<Rightarrow>
               if key \<in> set object_prototype then object
               else set_prop object key (customDefaultsMerge h JUndef srcValue)))
       source"
| "cloneEach h [] = []"
| "cloneEach h (x # xs) = customDefaultsMerge h JUndef x # cloneEach h xs"

text \<open>
  \<^verbatim>\<open>defaultsDeep(object, source)\<close> with an object as the source, as the properties of
  the destination it returns: \<^verbatim>\<open>undefined\<close> and \<^verbatim>\<open>null\<close> become an empty object.
\<close>

fun defaultsDeep :: "host \<Rightarrow> jsval \<Rightarrow> props \<Rightarrow> props" where
  "defaultsDeep h (JObj ps) source = baseMerge h ps source"
| "defaultsDeep h JUndef source = baseMerge h [] source"
| "defaultsDeep h JNull source = baseMerge h [] source"
| "defaultsDeep h object source = mergeBoxed h object source"

text \<open>
  One of \<^verbatim>\<open>entry\<close> and \<^verbatim>\<open>template\<close> of a page in \<^verbatim>\<open>normalizeConfig\<close>:
  \<^verbatim>\<open>if (page[key] && !isAbsolute(page[key])) page[key] = resolve(filepath, page[key])\<close>.
  \<^verbatim>\<open>isAbsolute\<close> throws a \<^verbatim>\<open>TypeError\<close> on a value that is not a string, and so does
  \<^verbatim>\<open>page[key]\<close> on a page that is \<^verbatim>\<open>undefined\<close> or \<^verbatim>\<open>null\<close>.
\<close>

fun normalize_key :: "host \<Rightarrow> string \<Rightarrow> string \<Rightarrow> jsval \<Rightarrow> error + jsval" where
  "normalize_key h dir key JUndef = Inl TypeError"
| "normalize_key h dir key JNull = Inl TypeError"
| "normalize_key h dir key (JObj ps) =
     (if truthy (get_prop ps key) then
        (case get_prop ps key of
           JStr f \<Rightarrow>
             Inr (if \<not> isAbsolute h f then JObj (set_prop ps key (JStr (resolve h dir f)))
                  else JObj ps)
         | _ \<Rightarrow> Inl TypeError)
      else Inr (JObj ps))"
| "normalize_key h dir key page = Inr page"

definition normalize_page :: "host \<Rightarrow> string \<Rightarrow> jsval \<Rightarrow> error + jsval" where
  "normalize_page h dir page =
     (case normalize_key h dir ''entry'' page of
        Inl e \<Rightarrow> Inl e
      | Inr page' \<Rightarrow> normalize_key h dir ''template'' page')"

text \<open>The loop over the pages, stopping at the first page that throws.\<close>

fun normalize_each :: "host \<Rightarrow> string \<Rightarrow> jsval list \<Rightarrow> error + jsval list" where
  "normalize_each h dir [] = Inr []"
| "normalize_each h dir (page # rest) =
     (case normalize_page h dir page of
        Inl e \<Rightarrow> Inl e
      | Inr page' \<Rightarrow>
          (case normalize_each h dir rest of
             Inl e \<Rightarrow> Inl e
           | Inr rest' \<Rightarrow> Inr (page' # rest')))"

text \<open>
  \<^verbatim>\<open>Object.keys(pages).forEach(...)\<close>: over the properties of an object, the elements of
  an array, and the characters of a string (on which \<^verbatim>\<open>page[key]\<close> is \<^verbatim>\<open>undefined\<close>, so
  nothing changes); the other values have no keys.
\<close>

fun normalize_pages :: "host \<Rightarrow> string \<Rightarrow> jsval \<Rightarrow> error + jsval" where
  "normalize_pages h dir (JObj ps) =
     (case normalize_each h dir (map snd ps) of
        Inl e \<Rightarrow> Inl e
      | Inr vs \<Rightarrow> Inr (JObj (zip (map fst ps) vs)))"
| "normalize_pages h dir (JArr xs) =
     (case normalize_each h dir xs of Inl e \<Rightarrow> Inl e | Inr vs \<Rightarrow> Inr (JArr vs))"
| "normalize_pages h dir pages = Inr pages"

text \<open>
  The first three statements of \<^verbatim>\<open>normalizeConfig\<close>: the slashes of
  \<^verbatim>\<open>publicPath\<close>, its leading \<^verbatim>\<open>./\<close>, and the trailing slash of \<^verbatim>\<open>outputDir\<close>.
\<close>

definition normalize_slashes :: "props \<Rightarrow> props" where
  "normalize_slashes config =
     (let c1 = ensureSlash config ''publicPath'';
          c2 = (case get_prop c1 ''publicPath'' of
                  JStr p \<Rightarrow> set_prop c1 ''publicPath'' (JStr (strip_dot_slash p))
                | _ \<Rightarrow> c1)
      in removeSlash c2 ''outputDir'')"

text \<open>
  \<^verbatim>\<open>normalizeConfig(config, filepath)\<close>; the file path is \<^verbatim>\<open>None\<close> when it is
  \<^verbatim>\<open>undefined\<close>. The pages are objects inside the configuration, changed in place: the
  configuration returned holds the pages as changed.
\<close>

definition normalizeConfig :: "host \<Rightarrow> props \<Rightarrow> string option \<Rightarrow> error + props" where
  "normalizeConfig h config filepath =
     (case filepath of
        None \<Rightarrow> Inr (normalize_slashes config)
      | Some fp \<Rightarrow>
          if fp \<noteq> [] \<and> truthy (get_prop (normalize_slashes config) ''pages'') then
            (case normalize_pages h (dirname h fp) (get_prop (normalize_slashes config) ''pages'') of
               Inl e \<Rightarrow> Inl e
             | Inr pages' \<Rightarrow> Inr (set_prop (normalize_slashes config) ''pages'' pages'))
          else Inr (normalize_slashes config))"

text \<open>
  The first statements of \<^verbatim>\<open>loadProjectOptions\<close>: a non-empty string names the file,
  made absolute against the working directory, and becomes \<^verbatim>\<open>false\<close> when the file
  does not exist; every other argument is left alone.
\<close>

fun locate :: "host \<Rightarrow> string \<Rightarrow> jsval \<Rightarrow> jsval" where
  "locate h cwd (JStr f) =
     (if f \<noteq> [] then
        (if existsSync h (if isAbsolute h f then f else resolve h cwd f)
         then JStr (if isAbsolute h f then f else resolve h cwd f)
         else JBool False)
      else JStr f)"
| "locate h cwd configFile = configFile"

text \<open>
  \<^verbatim>\<open>result = {filepath: originalConfigFile, config: configFile ? require(configFile) : false}\<close>
  and the search for \<^verbatim>\<open>san.config.js\<close> when no file was named or found. The result is
  the pair of the file path and the loaded value. \<^verbatim>\<open>require\<close> of a truthy value that is
  not a string throws a \<^verbatim>\<open>TypeError\<close>.
\<close>

definition load_result :: "host \<Rightarrow> string \<Rightarrow> jsval \<Rightarrow> error + (string option \<times> jsval)" where
  "load_result h cwd originalConfigFile =
     (let configFile = locate h cwd originalConfigFile in
      if truthy configFile then
        (case configFile of
           JStr p \<Rightarrow>
             (case load h p of
                Inl e \<Rightarrow> Inl e
              | Inr c \<Rightarrow>
                  Inr ((case originalConfigFile of JStr f \<Rightarrow> Some f | _ \<Rightarrow> None), c))
         | _ \<Rightarrow> Inl TypeError)
      else
        (case findExisting h [''san.config.js'', ''.san.config.js''] cwd of
           None \<Rightarrow> Inr (None, JBool False)
         | Some fp \<Rightarrow>
             (if fp \<noteq> [] then
                (case load h fp of Inl e \<Rightarrow> Inl e | Inr c \<Rightarrow> Inr (Some fp, c))
              else Inr (Some fp, JBool False))))"

text \<open>
  \<^verbatim>\<open>loadProjectOptions(configFile)\<close> of a service in working directory \<^verbatim>\<open>cwd\<close> whose
  constructor was given \<^verbatim>\<open>projectOptions\<close>: the options merged over the
  defaults first, then the loaded file's value as the destination of a second
  \<^verbatim>\<open>defaultsDeep\<close> with that result as the source, then \<^verbatim>\<open>normalizeConfig\<close>. A loaded
  value that is truthy and not an object is only logged, and merged all the same. lodash
  writes into its destination, so the first merge also changes the object kept in
  \<^verbatim>\<open>_initProjectOptions\<close>; the model gives the value returned. The log lines are left
  out.
\<close>

definition loadProjectOptions :: "host \<Rightarrow> string \<Rightarrow> jsval \<Rightarrow> jsval \<Rightarrow> error + props" where
  "loadProjectOptions h cwd initProjectOptions configFile =
     (let config = defaultsDeep h initProjectOptions (defaultConfig h) in
      case load_result h cwd configFile of
        Inl e \<Rightarrow> Inl e
      | Inr (filepath, loaded) \<Rightarrow>
          if truthy loaded then
            (case (if typeof loaded \<noteq> ''object'' then None else validateOptions h loaded) of
               Some e \<Rightarrow> Inl (SError e)
             | None \<Rightarrow> normalizeConfig h (defaultsDeep h loaded config) filepath)
          else normalizeConfig h config filepath)"

section \<open>The service\<close>

text \<open>
  The handler a command descriptor holds: the function it was registered with, or, when
  that was not a function, the closure \<^verbatim>\<open>registerCommand\<close> puts in its place, which
  logs that the command (the first argument of the registration) has an empty handler.
\<close>

datatype cmd_handler = UserHandler nat | EmptyHandler jsval

text \<open>The descriptor \<^verbatim>\<open>registerCommand\<close> stores.\<close>

record command_desc =
  cd_command :: jsval
  cd_handler :: cmd_handler
  cd_aliases :: jsval
  cd_extend :: jsval
  cd_describe :: jsval
  cd_builder :: jsval

text \<open>
  The module \<^verbatim>\<open>runCommand\<close> hands to the command-line parser. Its handler is a
  closure over the array of pre-handlers read from the registry (\<^verbatim>\<open>None\<close> when the
  registry has no entry) and over the descriptor's own handler; its builder is the flags
  object itself, by reference.
\<close>

record yargs_module =
  ym_command :: jsval
  ym_handlers :: "jsval list option"
  ym_oHandler :: cmd_handler
  ym_describe :: jsval
  ym_builder :: nat
  ym_aliases :: jsval

text \<open>
  The fields of a \<^verbatim>\<open>Service\<close> that the modelled methods read or write. The three
  registries are \<^verbatim>\<open>Map\<close>s keyed by command name. The flags registry holds objects that
  are changed in place and shared with the parser, so it holds references, and
  \<^verbatim>\<open>flag_objects\<close> gives the properties of every object allocated so far
  (\<^verbatim>\<open>next_object\<close> is the next free reference). \<^verbatim>\<open>cli\<close> is the list of modules given
  to the parser. \<^verbatim>\<open>world\<close> is everything outside the service that handlers act on.
\<close>

record 'w service =
  cwd :: string
  initialized :: bool
  initProjectOptions :: jsval
  webpackChainFns :: "jsval list"
  webpackRawConfigFns :: "jsval list"
  registeredCommands :: "string \<rightharpoonup> command_desc"
  registeredCommandFlags :: "string \<rightharpoonup> nat"
  registeredCommandHandlers :: "string \<rightharpoonup> jsval list"
  cli :: "yargs_module list"
  devServerMiddlewares :: "jsval list"
  plugins :: "jsval list"
  mode :: jsval
  projectOptions :: jsval
  flag_objects :: "nat \<Rightarrow> props"
  next_object :: nat
  world :: 'w

subsection \<open>Plugins\<close>

definition BUILDIN_PLUGINS :: "string list" where
  "BUILDIN_PLUGINS = [''base'', ''css'', ''app'', ''optimization'', ''babel'']"

text \<open>\<^verbatim>\<open>xs[i]\<close> on an array: \<^verbatim>\<open>undefined\<close> past the end.\<close>

definition element :: "jsval list \<Rightarrow> nat \<Rightarrow> jsval" where
  "element xs i = (if i < length xs then xs ! i else JUndef)"

text \<open>
  The string branch of \<^verbatim>\<open>_loadPlugin\<close>, inside its \<^verbatim>\<open>try\<close>: \<^verbatim>\<open>loadModule p\<close> is
  \<^verbatim>\<open>require(resolvePlugin(p, this.cwd))\<close>. Every exception in the block is caught and
  logged, and the method then returns nothing: \<^verbatim>\<open>undefined\<close>.
\<close>

definition loadPlugin_string ::
  "(string \<Rightarrow> error + jsval) \<Rightarrow> string \<Rightarrow> jsval \<Rightarrow> jsval" where
  "loadPlugin_string loadModule p pluginOptions =
     (case loadModule p of
        Inl e \<Rightarrow> JUndef
      | Inr loaded \<Rightarrow>
          (case member loaded ''__esModule'' of
             Inl e \<Rightarrow> JUndef
           | Inr es \<Rightarrow>
               (let plugin = (if truthy es then field loaded ''default'' else loaded) in
                case plugin of
                  JNull \<Rightarrow> JUndef
                | JObj ps \<Rightarrow>
                    (if typeof (get_prop ps ''apply'') = ''function'' then
                       (let plugin' =
                          (if \<not> truthy (get_prop ps ''id'')
                           then JObj (set_prop ps ''id'' (JStr p)) else JObj ps)
                        in if truthy pluginOptions then JArr [plugin', pluginOptions]
                           else plugin')
                     else JUndef)
                | _ \<Rightarrow> JUndef)))"

text \<open>
  \<^verbatim>\<open>_loadPlugin(p)\<close>. Outside the \<^verbatim>\<open>try\<close> nothing is caught: \<^verbatim>\<open>p.id\<close> on
  \<^verbatim>\<open>null\<close> and \<^verbatim>\<open>p.toString()\<close> on \<^verbatim>\<open>undefined\<close> throw. A specifier that is
  refused is logged, and the method returns \<^verbatim>\<open>undefined\<close>.
\<close>

definition loadPlugin :: "(string \<Rightarrow> error + jsval) \<Rightarrow> jsval \<Rightarrow> error + jsval" where
  "loadPlugin loadModule p0 =
     (let pluginOptions = (case p0 of JArr [a, b] \<Rightarrow> b | _ \<Rightarrow> JUndef);
          p = (case p0 of JArr [a, b] \<Rightarrow> a | _ \<Rightarrow> p0)
      in case p of
           JStr name \<Rightarrow> Inr (loadPlugin_string loadModule name pluginOptions)
         | JNull \<Rightarrow> Inl TypeError
         | JObj ps \<Rightarrow>
             (if truthy (get_prop ps ''id'') \<and> typeof (get_prop ps ''apply'') = ''function''
              then Inr (if truthy pluginOptions then JArr [p, pluginOptions] else p)
              else Inr JUndef)
         | JUndef \<Rightarrow> Inl TypeError
         | _ \<Rightarrow> Inr JUndef)"

text \<open>\<^verbatim>\<open>plugins.map(this._loadPlugin.bind(this))\<close>: the first exception ends the map.\<close>

fun loadPlugins :: "(string \<Rightarrow> error + jsval) \<Rightarrow> jsval list \<Rightarrow> error + jsval list" where
  "loadPlugins loadModule [] = Inr []"
| "loadPlugins loadModule (p # ps) =
     (case loadPlugin loadModule p of
        Inl e \<Rightarrow> Inl e
      | Inr q \<Rightarrow>
          (case loadPlugins loadModule ps of
             Inl e \<Rightarrow> Inl e
           | Inr qs \<Rightarrow> Inr (q # qs)))"

text \<open>
  \<^verbatim>\<open>resolvePlugins(plugins, useBuiltInPlugin)\<close>; \<^verbatim>\<open>builtin id\<close> is
  \<^verbatim>\<open>require(`../configs/${id}`)\<close>, a module of the package itself.
\<close>

definition resolvePlugins ::
  "(string \<Rightarrow> jsval) \<Rightarrow> (string \<Rightarrow> error + jsval) \<Rightarrow> jsval \<Rightarrow> jsval \<Rightarrow> error + jsval list" where
  "resolvePlugins builtin loadModule plugins0 useBuiltInPlugin =
     (let builtInPlugins = (if truthy useBuiltInPlugin then map builtin BUILDIN_PLUGINS else []);
          given = (case plugins0 of JArr xs \<Rightarrow> xs | _ \<Rightarrow> [])
      in if given \<noteq> [] then
           (case loadPlugins loadModule given of
              Inl e \<Rightarrow> Inl e
            | Inr loaded \<Rightarrow> Inr (builtInPlugins @ loaded))
         else Inr builtInPlugins)"

text \<open>
  The constructor, with its defaults for the options left \<^verbatim>\<open>undefined\<close>; the command
  line starts with no module. It throws when \<^verbatim>\<open>resolvePlugins\<close> does.
\<close>

definition new_Service ::
  "(string \<Rightarrow> jsval) \<Rightarrow> (string \<Rightarrow> error + jsval) \<Rightarrow> string \<Rightarrow> jsval \<Rightarrow> jsval \<Rightarrow> jsval \<Rightarrow> 'w
     \<Rightarrow> error + 'w service" where
  "new_Service builtin loadModule dir plugins0 useBuiltInPlugin projectOptions0 w =
     (case resolvePlugins builtin loadModule
             (if plugins0 = JUndef then JArr [] else plugins0)
             (if useBuiltInPlugin = JUndef then JBool True else useBuiltInPlugin) of
        Inl e \<Rightarrow> Inl e
      | Inr ps \<Rightarrow>
          Inr \<lparr>cwd = dir, initialized = False,
               initProjectOptions = (if projectOptions0 = JUndef then JObj [] else projectOptions0),
               webpackChainFns = [], webpackRawConfigFns = [],
               registeredCommands = Map.empty, registeredCommandFlags = Map.empty,
               registeredCommandHandlers = Map.empty, cli = [],
               devServerMiddlewares = [], plugins = ps, mode = JUndef,
               projectOptions = JUndef, flag_objects = (\<lambda>r. []), next_object = 0,
               world = w\<rparr>)"

text \<open>
  What applying a plugin does is a parameter: \<^verbatim>\<open>apply f id projectOptions options\<close>
  is the call \<^verbatim>\<open>apply(api, this.projectOptions, options)\<close> of the function \<^verbatim>\<open>f\<close>,
  where \<^verbatim>\<open>api\<close> is the interface made for the plugin's \<^verbatim>\<open>id\<close>. It changes the service
  and may throw. \<^verbatim>\<open>initPlugin\<close> also reports the call it made, if it made one.
\<close>

type_synonym 'w applier =
  "nat \<Rightarrow> jsval \<Rightarrow> jsval \<Rightarrow> jsval \<Rightarrow> 'w service \<Rightarrow> error option \<times> 'w service"

definition initPlugin ::
  "'w applier \<Rightarrow> jsval \<Rightarrow> 'w service \<Rightarrow> (nat \<times> jsval) list \<times> error option \<times> 'w service" where
  "initPlugin app plugin0 s =
     (let options = (case plugin0 of JArr xs \<Rightarrow> element xs 1 | _ \<Rightarrow> JObj []);
          plugin = (case plugin0 of JArr xs \<Rightarrow> element xs 0 | _ \<Rightarrow> plugin0)
      in if nullish plugin then ([], Some TypeError, s)
         else
           (case field plugin ''apply'' of
              JFun f \<Rightarrow>
                (case app f (field plugin ''id'') (projectOptions s) options s of
                   (r, s') \<Rightarrow> ([(f, field plugin ''id'')], r, s'))
            | _ \<Rightarrow> ([], Some TypeError, s)))"

text \<open>
  \<^verbatim>\<open>this.plugins.forEach(plugin => this.initPlugin(plugin))\<close>: the number of rounds is
  the length of the array when the loop starts, and each round reads the array as it then
  is. \<^verbatim>\<open>forEach_plugins app n i s\<close> runs \<^verbatim>\<open>n\<close> rounds from index \<^verbatim>\<open>i\<close>.
\<close>

fun forEach_plugins ::
  "'w applier \<Rightarrow> nat \<Rightarrow> nat \<Rightarrow> 'w service \<Rightarrow> (nat \<times> jsval) list \<times> error option \<times> 'w service" where
  "forEach_plugins app 0 i s = ([], None, s)"
| "forEach_plugins app (Suc n) i s =
     (if i < length (plugins s) then
        (case initPlugin app (plugins s ! i) s of
           (t, Some e, s') \<Rightarrow> (t, Some e, s')
         | (t, None, s') \<Rightarrow>
             (case forEach_plugins app n (Suc i) s' of
                (t', r, s'') \<Rightarrow> (t @ t', r, s'')))
      else forEach_plugins app n (Suc i) s)"

text \<open>
  \<^verbatim>\<open>init(mode)\<close>, with the plugin calls it made, the exception if one was thrown, and
  the service afterwards.
\<close>

definition init ::
  "'w applier \<Rightarrow> jsval \<Rightarrow> 'w service \<Rightarrow> (nat \<times> jsval) list \<times> error option \<times> 'w service" where
  "init app m s =
     (if initialized s then ([], None, s)
      else
        (case forEach_plugins app (length (plugins s)) 0 (s\<lparr>initialized := True, mode := m\<rparr>) of
           (t, Some e, s1) \<Rightarrow> (t, Some e, s1)
         | (t, None, s1) \<Rightarrow>
             (if nullish (projectOptions s1) then (t, Some TypeError, s1)
              else
                (let s2 = (if truthy (field (projectOptions s1) ''chainWebpack'')
                           then s1\<lparr>webpackChainFns :=
                                     webpackChainFns s1 @ [field (projectOptions s1) ''chainWebpack'']\<rparr>
                           else s1);
                     s3 = (if truthy (field (projectOptions s2) ''configWebpack'')
                           then s2\<lparr>webpackRawConfigFns :=
                                     webpackRawConfigFns s2 @ [field (projectOptions s2) ''configWebpack'']\<rparr>
                           else s2)
                 in (t, None, s3)))))"

subsection \<open>Commands, flags and pre-handlers\<close>

text \<open>
  \<^verbatim>\<open>argsert\<close> of the utilities package checks the arguments of a call against a
  pattern; it is a parameter that returns (\<^verbatim>\<open>None\<close>) or throws. The last argument of
  each method below is \<^verbatim>\<open>arguments.length\<close>.
\<close>

type_synonym argsert = "string \<Rightarrow> jsval list \<Rightarrow> nat \<Rightarrow> error option"

text \<open>A new empty object \<^verbatim>\<open>{}\<close> for flags: its reference and the service that holds it.\<close>

definition new_flags :: "'w service \<Rightarrow> nat \<times> 'w service" where
  "new_flags s =
     (next_object s,
      s\<lparr>flag_objects := (flag_objects s)(next_object s := []),
        next_object := Suc (next_object s)\<rparr>)"

text \<open>\<^verbatim>\<open>flagMap.get(cmdName) || {}\<close>\<close>

definition flags_or_new :: "string \<Rightarrow> 'w service \<Rightarrow> nat \<times> 'w service" where
  "flags_or_new cmdName s =
     (case registeredCommandFlags s cmdName of
        Some r \<Rightarrow> (r, s)
      | None \<Rightarrow> new_flags s)"

text \<open>\<^verbatim>\<open>Object.assign(flags, source)\<close> on the object behind a reference.\<close>

definition assign_flags :: "nat \<Rightarrow> jsval \<Rightarrow> 'w service \<Rightarrow> 'w service" where
  "assign_flags r source s =
     s\<lparr>flag_objects := (flag_objects s)(r := object_assign (flag_objects s r) source)\<rparr>"

definition registerCommandFlag ::
  "argsert \<Rightarrow> jsval \<Rightarrow> jsval \<Rightarrow> jsval \<Rightarrow> nat \<Rightarrow> 'w service \<Rightarrow> error option \<times> 'w service" where
  "registerCommandFlag argsert cmdName0 flag handler nargs s =
     (case argsert ''<string> <object> <function>'' [cmdName0, flag, handler] nargs of
        Some e \<Rightarrow> (Some e, s)
      | None \<Rightarrow>
          (case getCommandName_val cmdName0 of
             Inl e \<Rightarrow> (Some e, s)
           | Inr cmdName \<Rightarrow>
               (case flags_or_new cmdName s of
                  (flags, s1) \<Rightarrow>
                    (let s2 = assign_flags flags flag s1;
                         s3 = s2\<lparr>registeredCommandFlags :=
                                   (registeredCommandFlags s2)(cmdName \<mapsto> flags)\<rparr>;
                         handlers = (case registeredCommandHandlers s3 cmdName of
                                       Some hs \<Rightarrow> hs | None \<Rightarrow> [])
                     in (None,
                         s3\<lparr>registeredCommandHandlers :=
                              (registeredCommandHandlers s3)(cmdName \<mapsto> handlers @ [handler])\<rparr>)))))"

text \<open>
  The six variables \<^verbatim>\<open>registerCommand\<close> fills from its arguments: from the
  descriptor when the first argument is of type object, else from the second argument,
  which is the handler when it is a function. In the last branch the source reads
  \<^verbatim>\<open>extend\<close> from \<^verbatim>\<open>name\<close>, which is not an object there.
\<close>

record parts =
  p_command :: jsval
  p_description :: jsval
  p_builder :: jsval
  p_handler :: jsval
  p_aliases :: jsval
  p_extend :: jsval

definition command_parts :: "jsval \<Rightarrow> jsval \<Rightarrow> error + parts" where
  "command_parts name yargsModule =
     (if typeof name = ''object'' then
        (if nullish name then Inl TypeError
         else Inr \<lparr>p_command = field name ''command'',
                   p_description =
                     js_or (js_or (field name ''describe'') (field name ''description''))
                       (field name ''desc''),
                   p_builder = field name ''builder'',
                   p_handler = field name ''handler'',
                   p_aliases = field name ''aliases'',
                   p_extend = field name ''extend''\<rparr>)
      else if typeof yargsModule = ''function'' then
        Inr \<lparr>p_command = name, p_description = JUndef, p_builder = JUndef,
             p_handler = yargsModule, p_aliases = JUndef, p_extend = JUndef\<rparr>
      else if nullish yargsModule \<or> nullish name then Inl TypeError
      else
        Inr \<lparr>p_command = name,
             p_description =
               js_or (js_or (field yargsModule ''describe'') (field yargsModule ''description''))
                 (field yargsModule ''desc''),
             p_builder = field yargsModule ''builder'',
             p_handler = field yargsModule ''handler'',
             p_aliases = field yargsModule ''aliases'',
             p_extend = field name ''extend''\<rparr>)"

text \<open>
  The descriptor \<^verbatim>\<open>registerCommand\<close> stores: the handler falls back to the logging
  closure, \<^verbatim>\<open>describe\<close> to \<^verbatim>\<open>false\<close>, \<^verbatim>\<open>builder\<close> to \<^verbatim>\<open>{}\<close>.
\<close>

definition descriptor :: "jsval \<Rightarrow> parts \<Rightarrow> command_desc" where
  "descriptor name p =
     \<lparr>cd_command = p_command p,
      cd_handler = (case p_handler p of JFun f \<Rightarrow> UserHandler f | _ \<Rightarrow> EmptyHandler name),
      cd_aliases = p_aliases p,
      cd_extend = p_extend p,
      cd_describe = (if truthy (p_description p) then p_description p else JBool False),
      cd_builder = (if truthy (p_builder p) then p_builder p else JObj [])\<rparr>"

definition registerCommand ::
  "argsert \<Rightarrow> jsval \<Rightarrow> jsval \<Rightarrow> nat \<Rightarrow> 'w service \<Rightarrow> error option \<times> 'w service" where
  "registerCommand argsert name yargsModule nargs s =
     (case argsert ''<string|object> [object]'' [name, yargsModule] nargs of
        Some e \<Rightarrow> (Some e, s)
      | None \<Rightarrow>
          (case command_parts name yargsModule of
             Inl e \<Rightarrow> (Some e, s)
           | Inr p \<Rightarrow>
               (case getCommandName_val (p_command p) of
                  Inl e \<Rightarrow> (Some e, s)
                | Inr cmdName \<Rightarrow>
                    (None,
                     s\<lparr>registeredCommands :=
                         (registeredCommands s)(cmdName \<mapsto> descriptor name p)\<rparr>))))"

text \<open>
  A handler is called with the parsed arguments: \<^verbatim>\<open>call f argv w\<close> is what the
  function \<^verbatim>\<open>f\<close> returns or throws, and the world it leaves. What ran is reported as a
  list of invocations, in order.
\<close>

type_synonym 'w caller = "nat \<Rightarrow> jsval \<Rightarrow> 'w \<Rightarrow> (error + jsval) \<times> 'w"

datatype invocation = PreHandler nat | OwnHandler cmd_handler

text \<open>
  The loop of the handler \<^verbatim>\<open>runCommand\<close> builds, from the current value of
  \<^verbatim>\<open>doit\<close>: each entry that is a function is called and its result stored in
  \<^verbatim>\<open>doit\<close>; the loop breaks when that is \<^verbatim>\<open>false\<close>.
\<close>

fun run_handlers ::
  "'w caller \<Rightarrow> jsval list \<Rightarrow> jsval \<Rightarrow> jsval \<Rightarrow> 'w \<Rightarrow> invocation list \<times> (error + jsval) \<times> 'w" where
  "run_handlers call [] argv doit w = ([], Inr doit, w)"
| "run_handlers call (JFun f # hs) argv doit w =
     (case call f argv w of
        (Inl e, w') \<Rightarrow> ([PreHandler f], Inl e, w')
      | (Inr v, w') \<Rightarrow>
          (if v = JBool False then ([PreHandler f], Inr v, w')
           else (case run_handlers call hs argv v w' of
                   (t, r, w'') \<Rightarrow> (PreHandler f # t, r, w''))))"
| "run_handlers call (h # hs) argv doit w = run_handlers call hs argv doit w"

text \<open>The descriptor's own handler; the closure for an empty handler only logs.\<close>

fun call_own :: "'w caller \<Rightarrow> cmd_handler \<Rightarrow> jsval \<Rightarrow> 'w \<Rightarrow> (error + jsval) \<times> 'w" where
  "call_own call (UserHandler f) argv w = call f argv w"
| "call_own call (EmptyHandler name) argv w = (Inr JUndef, w)"

text \<open>
  The handler \<^verbatim>\<open>runCommand\<close> gives to the parser, called with \<^verbatim>\<open>argv\<close>. The
  registry stores arrays only, so the branch for \<^verbatim>\<open>handlers\<close> being one function is
  never taken. After the loop, \<^verbatim>\<open>doit !== false && oHandler(argv)\<close>.
\<close>

definition dispatch_handler ::
  "'w caller \<Rightarrow> jsval list option \<Rightarrow> cmd_handler \<Rightarrow> jsval \<Rightarrow> 'w
     \<Rightarrow> invocation list \<times> error option \<times> 'w" where
  "dispatch_handler call handlers oHandler argv w =
     (case (case handlers of
              Some hs \<Rightarrow> run_handlers call hs argv (JBool True) w
            | None \<Rightarrow> ([], Inr (JBool True), w)) of
        (t, Inl e, w1) \<Rightarrow> (t, Some e, w1)
      | (t, Inr doit, w1) \<Rightarrow>
          (if doit \<noteq> JBool False then
             (case call_own call oHandler argv w1 of
                (Inl e, w2) \<Rightarrow> (t @ [OwnHandler oHandler], Some e, w2)
              | (Inr v, w2) \<Rightarrow> (t @ [OwnHandler oHandler], None, w2))
           else (t, None, w1)))"

text \<open>
  \<^verbatim>\<open>if (rawArgs[0] !== cmd) rawArgs.unshift(cmd)\<close> for a command name \<^verbatim>\<open>cmd\<close>: only
  an array has \<^verbatim>\<open>unshift\<close>.
\<close>

fun unshift_cmd :: "string \<Rightarrow> jsval \<Rightarrow> error + jsval" where
  "unshift_cmd cmd (JArr xs) =
     Inr (JArr (if element xs 0 \<noteq> JStr cmd then JStr cmd # xs else xs))"
| "unshift_cmd cmd (JStr t) =
     (if t \<noteq> [] \<and> [hd t] = cmd then Inr (JStr t) else Inl TypeError)"
| "unshift_cmd cmd (JObj ps) =
     (if get_prop ps ''0'' = JStr cmd then Inr (JObj ps) else Inl TypeError)"
| "unshift_cmd cmd rawArgs = Inl TypeError"

text \<open>
  The parser is a parameter: \<^verbatim>\<open>parse modules rawArgs\<close> throws, or dispatches nothing,
  or names the module (by its position) whose handler it calls and the arguments it
  calls it with.
\<close>

type_synonym parser = "yargs_module list \<Rightarrow> jsval \<Rightarrow> error + (nat \<times> jsval) option"

text \<open>
  Steps 0.1 to 1 of \<^verbatim>\<open>runCommand\<close> for a registered command: the flags object is the
  registry's own when there is one (else a new one), the builder of the descriptor is
  assigned into it, and the module with that object as its builder and with the handler
  closure goes to the parser.
\<close>

definition add_module :: "string \<Rightarrow> command_desc \<Rightarrow> 'w service \<Rightarrow> 'w service" where
  "add_module cmd c s =
     (case flags_or_new cmd s of
        (flags, s1) \<Rightarrow>
          (let s2 = assign_flags flags (js_or (cd_builder c) (JObj [])) s1
           in s2\<lparr>cli := cli s2 @
                  [\<lparr>ym_command = cd_command c,
                    ym_handlers = registeredCommandHandlers s cmd,
                    ym_oHandler = cd_handler c,
                    ym_describe = cd_describe c,
                    ym_builder = flags,
                    ym_aliases = cd_aliases c\<rparr>]\<rparr>))"

text \<open>
  \<^verbatim>\<open>runCommand(cmd, rawArgs)\<close>. A key that is not a string has no entry in a registry
  whose keys are strings. For an unknown command the method logs and returns; the empty
  object it made for the flags is dropped with it. Otherwise the parser gets the module
  and the arguments, and the handler it dispatches runs before \<^verbatim>\<open>parse\<close> returns.
\<close>

definition runCommand ::
  "'w caller \<Rightarrow> parser \<Rightarrow> jsval \<Rightarrow> jsval \<Rightarrow> 'w service
     \<Rightarrow> invocation list \<times> error option \<times> 'w service" where
  "runCommand call parse cmd0 rawArgs s =
     (case cmd0 of
        JStr cmd \<Rightarrow>
          (case registeredCommands s cmd of
             None \<Rightarrow> ([], None, s)
           | Some c \<Rightarrow>
               (let s3 = add_module cmd c s
                in case unshift_cmd cmd rawArgs of
                     Inl e \<Rightarrow> ([], Some e, s3)
                   | Inr args \<Rightarrow>
                       (case parse (cli s3) args of
                          Inl e \<Rightarrow> ([], Some e, s3)
                        | Inr None \<Rightarrow> ([], None, s3)
                        | Inr (Some (i, argv)) \<Rightarrow>
                            (if i < length (cli s3) then
                               (case dispatch_handler call (ym_handlers (cli s3 ! i))
                                       (ym_oHandler (cli s3 ! i)) argv (world s3) of
                                  (t, r, w') \<Rightarrow> (t, r, s3\<lparr>world := w'\<rparr>))
                             else ([], None, s3)))))
      | _ \<Rightarrow> ([], None, s))"

subsection \<open>The webpack configuration\<close>

text \<open>
  \<^verbatim>\<open>getWebpackChainConfig()\<close>: the chainable configuration is of a type of
  \<^verbatim>\<open>webpack-chain\<close>; \<^verbatim>\<open>chain f c\<close> is the call of the function \<^verbatim>\<open>f\<close> on it, which
  changes it or throws. Calling an entry that is not a function is a \<^verbatim>\<open>TypeError\<close>.
\<close>

fun apply_chain :: "(nat \<Rightarrow> 'c \<Rightarrow> error + 'c) \<Rightarrow> jsval list \<Rightarrow> 'c \<Rightarrow> error + 'c" where
  "apply_chain chain [] c = Inr c"
| "apply_chain chain (JFun f # fns) c =
     (case chain f c of
        Inl e \<Rightarrow> Inl e
      | Inr c' \<Rightarrow> apply_chain chain fns c')"
| "apply_chain chain (v # fns) c = Inl TypeError"

definition getWebpackChainConfig ::
  "'c \<Rightarrow> (nat \<Rightarrow> 'c \<Rightarrow> error + 'c) \<Rightarrow> 'w service \<Rightarrow> error + 'c" where
  "getWebpackChainConfig newConfig chain s = apply_chain chain (webpackChainFns s) newConfig"

text \<open>
  \<^verbatim>\<open>getWebpackConfig(chainableConfig)\<close>: the default of the parameter is evaluated
  first, when no argument is given; then comes the check of \<^verbatim>\<open>initialized\<close>. The rest of
  the method composes \<^verbatim>\<open>toConfig\<close>, \<^verbatim>\<open>webpack-merge\<close> and \<^verbatim>\<open>lodash.merge\<close> over the
  raw mutators and the dev-server options: \<^verbatim>\<open>finish s c\<close> stands for that composition.
\<close>

definition not_initialized :: error where
  "not_initialized =
     SError (JStr ''Service must call init() before calling getWebpackConfig().'')"

definition getWebpackConfig ::
  "'c \<Rightarrow> (nat \<Rightarrow> 'c \<Rightarrow> error + 'c) \<Rightarrow> ('w service \<Rightarrow> 'c \<Rightarrow> error + jsval) \<Rightarrow> 'c option
     \<Rightarrow> 'w service \<Rightarrow> error + jsval" where
  "getWebpackConfig newConfig chain finish chainableConfig s =
     (case (case chainableConfig of
              Some c \<Rightarrow> Inr c
            | None \<Rightarrow> getWebpackChainConfig newConfig chain s) of
        Inl e \<Rightarrow> Inl e
      | Inr c \<Rightarrow> if \<not> initialized s then Inl not_initialized else finish s c)"

section \<open>Notions used in the statements\<close>




section \<open>Example inputs\<close>

text \<open>
  A project in \<^verbatim>\<open>/proj\<close> whose \<^verbatim>\<open>san.config.js\<close> exports three options, with four
  compiled-in defaults and a schema check that accepts everything.
\<close>

definition example_host :: host where
  "example_host =
     \<lparr>isAbsolute = (\<lambda>p. take 1 p = ''/''),
      resolve = (\<lambda>d f. d @ ''/'' @ f),
      dirname = (\<lambda>p. ''/proj''),
      existsSync = (\<lambda>p. p = ''/proj/san.config.js''),
      load = (\<lambda>p. if p = ''/proj/san.config.js''
                then Inr (JObj [(''assetsDir'', JStr ''from-file''),
                                (''outputDir'', JStr ''build/''),
                                (''publicPath'', JStr ''assets'')])
                else Inl (Thrown (JStr ''MODULE_NOT_FOUND''))),
      findExisting = (\<lambda>names d. None),
      defaultConfig = [(''publicPath'', JStr []), (''outputDir'', JStr ''dist''),
                       (''assetsDir'', JStr []), (''filenameHashing'', JBool True)],
      validateOptions = (\<lambda>v. None),
      mergeOnto = (\<lambda>a b. a),
      mergeBoxed = (\<lambda>a b. b),
      mergeGuarded = (\<lambda>key own srcValue. None)\<rparr>"

text \<open>
  An \<^verbatim>\<open>argsert\<close> that accepts every call; handlers that log their identifier in the
  world, of which number 2 returns \<^verbatim>\<open>false\<close> and the others \<^verbatim>\<open>undefined\<close>; a
  parser that dispatches the module added last, with an empty \<^verbatim>\<open>argv\<close>; a service
  just constructed, with no plugin; a loader that finds no module; plugins whose
  \<^verbatim>\<open>apply\<close> logs its identifier in the world; chain functions that log theirs in the
  configuration.
\<close>

definition example_argsert :: argsert where
  "example_argsert pattern args n = None"

definition example_call :: "nat list caller" where
  "example_call f argv w = (if f = 2 then Inr (JBool False) else Inr JUndef, w @ [f])"

definition example_parse :: parser where
  "example_parse modules args =
     Inr (if modules = [] then None else Some (length modules - 1, JObj []))"

definition example_service :: "nat list service" where
  "example_service =
     \<lparr>cwd = ''/proj'', initialized = False, initProjectOptions = JObj [],
      webpackChainFns = [], webpackRawConfigFns = [],
      registeredCommands = Map.empty, registeredCommandFlags = Map.empty,
      registeredCommandHandlers = Map.empty, cli = [],
      devServerMiddlewares = [], plugins = [], mode = JUndef,
      projectOptions = JUndef, flag_objects = (\<lambda>r. []), next_object = 0,
      world = []\<rparr>"

definition example_loader :: "string \<Rightarrow> error + jsval" where
  "example_loader p = Inl (Thrown (JStr ''Cannot find module''))"

definition example_builtin :: "string \<Rightarrow> jsval" where
  "example_builtin name = JObj [(''id'', JStr name), (''apply'', JFun 0)]"

definition example_plugin :: jsval where
  "example_plugin = JObj [(''id'', JStr ''good''), (''apply'', JFun 7)]"

definition example_apply :: "nat list applier" where
  "example_apply f pid po opt s = (None, s\<lparr>world := world s @ [f]\<rparr>)"



text \<open>
  Flags and a pre-handler for \<^verbatim>\<open>serve\<close>; the command registered once with a bare
  handler; another pre-handler; the command registered again, with a descriptor whose
  builder has the flag \<^verbatim>\<open>port\<close> too; and the dispatch of \<^verbatim>\<open>serve\<close> after that.
\<close>

definition example_flags :: jsval where
  "example_flags = JObj [(''port'', JStr ''aggregated''), (''open'', JBool True)]"

definition example_module :: jsval where
  "example_module =
     JObj [(''builder'', JObj [(''port'', JStr ''descriptor'')]), (''handler'', JFun 9)]"

definition example_flagged :: "nat list service" where
  "example_flagged =
     snd (registerCommandFlag example_argsert (JStr ''serve'') example_flags (JFun 1) 3
            example_service)"

definition example_once :: "nat list service" where
  "example_once =
     snd (registerCommand example_argsert (JStr ''serve'') (JFun 8) 2 example_flagged)"

definition example_more :: "nat list service" where
  "example_more =
     snd (registerCommandFlag example_argsert (JStr ''serve'') (JObj []) (JFun 3) 3 example_once)"

definition example_twice :: "nat list service" where
  "example_twice =
     snd (registerCommand example_argsert (JStr ''serve [entry]'') example_module 2 example_more)"

definition example_dispatched :: "invocation list \<times> error option \<times> nat list service" where
  "example_dispatched =
     runCommand example_call example_parse (JStr ''serve'') (JArr []) example_twice"

text \<open>
  The service with its project options set, as \<^verbatim>\<open>run\<close> sets them before \<^verbatim>\<open>init\<close>:
  once with a plugin that loaded, once with the entry of a plugin that failed to load
  before it.
\<close>

definition example_ready :: "nat list service" where
  "example_ready = example_service\<lparr>plugins := [example_plugin], projectOptions := JObj []\<rparr>"

definition example_broken :: "nat list service" where
  "example_broken =
     example_service\<lparr>plugins := [JUndef, example_plugin], projectOptions := JObj []\<rparr>"

section \<open>Objects and their properties\<close>

lemma get_prop_set_prop:
  "get_prop (set_prop ps k v) k' = (if k' = k then v else get_prop ps k')"
  by (induction ps) (auto simp: get_prop_def)

lemma get_prop_Cons:
  "get_prop ((k', v) # ps) k = (if k = k' then v else get_prop ps k)"
  by (simp add: get_prop_def)


lemma fold_set_prop_get:
  "distinct (map fst own) \<Longrightarrow>
   get_prop (fold (\<lambda>(k, v) t. set_prop t k v) own ps) k =
     (if k \<in> fst ` set own then get_prop own k else get_prop ps k)"
proof (induction own arbitrary: ps)
  case Nil
  then show ?case by simp
next
  case (Cons b own)
  obtain key v where b: "b = (key, v)" by (cases b)
  have d: "distinct (map fst own)" and n: "key \<notin> fst ` set own" using Cons.prems b by auto
  show ?case
  proof (cases "k = key")
    case True
    have "k \<notin> fst ` set own" using n True by simp
    then show ?thesis
      by (simp add: Cons.IH [OF d] b True [symmetric] get_prop_set_prop get_prop_Cons)
  next
    case False
    then show ?thesis by (simp add: Cons.IH [OF d] b get_prop_set_prop get_prop_Cons)
  qed
qed

lemma object_assign_get:
  "distinct (map fst own) \<Longrightarrow>
   get_prop (object_assign ps (JObj own)) k =
     (if k \<in> fst ` set own then get_prop own k else get_prop ps k)"
  by (simp add: object_assign_def fold_set_prop_get)

section \<open>Command names\<close>


























lemma example_serve: "getCommandName ''serve'' = ''serve''"
  and example_serve_entry: "getCommandName ''serve [entry]'' = ''serve''"
  by (simp_all add: getCommandName_def trim_def is_space_def in_brackets_def)

section \<open>Slashes and pages\<close>

lemma get_prop_ensureSlash_other:
  "k \<noteq> key \<Longrightarrow> get_prop (ensureSlash config key) k = get_prop config k"
  by (simp add: ensureSlash_def get_prop_set_prop split: jsval.splits)

lemma get_prop_removeSlash_other:
  "k \<noteq> key \<Longrightarrow> get_prop (removeSlash config key) k = get_prop config k"
  by (simp add: removeSlash_def get_prop_set_prop split: jsval.splits)

lemma get_prop_ensureSlash_same:
  "get_prop (ensureSlash config key) key =
     (case get_prop config key of
        JStr val \<Rightarrow> JStr (trail_slash (if \<not> is_http val then lead_slash val else val))
      | v \<Rightarrow> v)"
  by (simp add: ensureSlash_def get_prop_set_prop split: jsval.splits)

lemma get_prop_removeSlash_same:
  "get_prop (removeSlash config key) key =
     (case get_prop config key of JStr val \<Rightarrow> JStr (strip_trail_slash val) | v \<Rightarrow> v)"
  by (simp add: removeSlash_def get_prop_set_prop split: jsval.splits)

lemma slashes_publicPath:
  "get_prop (normalize_slashes config) ''publicPath'' =
     (case get_prop config ''publicPath'' of
        JStr val \<Rightarrow>
          JStr (strip_dot_slash (trail_slash (if \<not> is_http val then lead_slash val else val)))
      | v \<Rightarrow> v)"
  by (simp add: normalize_slashes_def Let_def get_prop_removeSlash_other get_prop_ensureSlash_same
        get_prop_set_prop split: jsval.splits)

lemma slashes_outputDir:
  "get_prop (normalize_slashes config) ''outputDir'' =
     (case get_prop config ''outputDir'' of JStr val \<Rightarrow> JStr (strip_trail_slash val) | v \<Rightarrow> v)"
  by (simp add: normalize_slashes_def Let_def get_prop_removeSlash_same get_prop_ensureSlash_other
        get_prop_set_prop split: jsval.splits)

lemma slashes_other:
  "k \<noteq> ''publicPath'' \<Longrightarrow> k \<noteq> ''outputDir'' \<Longrightarrow> get_prop (normalize_slashes config) k = get_prop config k"
  by (simp add: normalize_slashes_def Let_def get_prop_removeSlash_other get_prop_ensureSlash_other
        get_prop_set_prop split: jsval.splits)

lemma normalize_key_TypeError: "normalize_key h dir key page = Inl e \<Longrightarrow> e = TypeError"
  by (cases page) (auto split: jsval.splits if_splits)

lemma normalize_each_TypeError: "normalize_each h dir xs = Inl e \<Longrightarrow> e = TypeError"
  by (induction xs)
    (auto simp: normalize_page_def split: sum.splits dest: normalize_key_TypeError)

lemma normalize_pages_TypeError: "normalize_pages h dir pages = Inl e \<Longrightarrow> e = TypeError"
  by (cases pages) (auto split: sum.splits dest: normalize_each_TypeError)

lemma normalize_pages_scalar: "\<not> isObject pages \<Longrightarrow> normalize_pages h dir pages = Inr pages"
  by (cases pages) auto

lemma normalizeConfig_Inl:
  "normalizeConfig h config filepath = Inl e \<Longrightarrow>
     e = TypeError \<and> filepath \<noteq> None \<and> isObject (get_prop config ''pages'')"
proof -
  assume a: "normalizeConfig h config filepath = Inl e"
  have p: "get_prop (normalize_slashes config) ''pages'' = get_prop config ''pages''"
    by (simp add: slashes_other)
  from a obtain fp where fp: "filepath = Some fp"
    and n: "normalize_pages h (dirname h fp) (get_prop config ''pages'') = Inl e"
    by (auto simp: normalizeConfig_def p split: option.splits if_splits sum.splits)
  have "isObject (get_prop config ''pages'')"
    using n normalize_pages_scalar [of "get_prop config ''pages''" h "dirname h fp"] by auto
  then show ?thesis using fp n normalize_pages_TypeError by blast
qed

lemma normalizeConfig_Inr:
  "normalizeConfig h config filepath = Inr c \<Longrightarrow> k \<noteq> ''pages'' \<Longrightarrow>
     get_prop c k = get_prop (normalize_slashes config) k"
  by (auto simp: normalizeConfig_def get_prop_set_prop split: option.splits if_splits sum.splits)


lemma normalizeConfig_no_pages:
  "\<not> isObject (get_prop config ''pages'') \<Longrightarrow> \<exists>c. normalizeConfig h config filepath = Inr c"
  by (auto simp: normalizeConfig_def get_prop_set_prop slashes_other normalize_pages_scalar
        split: option.splits if_splits sum.splits)



text \<open>The example project, loaded with and without options from the constructor.\<close>

lemma example_load:
  "load_result example_host ''/proj'' (JStr ''san.config.js'') =
     Inr (Some ''san.config.js'',
          JObj [(''assetsDir'', JStr ''from-file''), (''outputDir'', JStr ''build/''),
                (''publicPath'', JStr ''assets'')])"
  by (simp add: load_result_def example_host_def)

lemma example_defaults:
  "defaultConfig example_host =
     [(''publicPath'', JStr []), (''outputDir'', JStr ''dist''),
      (''assetsDir'', JStr []), (''filenameHashing'', JBool True)]"
  by (simp add: example_host_def)



lemma example_scenario:
  "loadProjectOptions example_host ''/proj'' (JObj []) (JStr ''san.config.js'') =
     Inr [(''assetsDir'', JStr ''from-file''), (''outputDir'', JStr ''build''),
          (''publicPath'', JStr ''/assets/''), (''filenameHashing'', JBool True)]"
proof -
  have v: "validateOptions example_host = (\<lambda>v. None)" by (simp add: example_host_def)
  have d: "defaultsDeep example_host (JObj []) (defaultConfig example_host) =
      [(''publicPath'', JStr []), (''outputDir'', JStr ''dist''),
       (''assetsDir'', JStr []), (''filenameHashing'', JBool True)]"
    by (simp add: example_defaults object_prototype_def)
  show ?thesis
    unfolding loadProjectOptions_def d example_load Let_def
    by (simp add: v object_prototype_def)
      (simp add: get_prop_def normalizeConfig_def normalize_slashes_def
        ensureSlash_def removeSlash_def is_http_def trail_slash_def strip_dot_slash_def
        strip_trail_slash_def)
qed

text \<open>
  Claim C8. For a configuration whose \<^verbatim>\<open>publicPath\<close> is \<^verbatim>\<open>"assets"\<close>,
  \<^verbatim>\<open>normalizeConfig\<close> returns a configuration whose \<^verbatim>\<open>publicPath\<close> is
  \<^verbatim>\<open>"/assets/"\<close>; for one whose \<^verbatim>\<open>outputDir\<close> is \<^verbatim>\<open>"build/"\<close>, one whose
  \<^verbatim>\<open>outputDir\<close> is \<^verbatim>\<open>"build"\<close>. The only way it does not return is a
  \<^verbatim>\<open>TypeError\<close> from the pages, which needs a file path and a \<^verbatim>\<open>pages\<close> value that
  is an object or an array.
\<close>

theorem normalizeConfig_slashes:
  "(get_prop config ''publicPath'' = JStr ''assets'' \<longrightarrow>
      (case normalizeConfig h config fp of
         Inr c \<Rightarrow> get_prop c ''publicPath'' = JStr ''/assets/''
       | Inl e \<Rightarrow> e = TypeError \<and> fp \<noteq> None \<and> isObject (get_prop config ''pages'')))
   \<and> (get_prop config ''outputDir'' = JStr ''build/'' \<longrightarrow>
      (case normalizeConfig h config fp of
         Inr c \<Rightarrow> get_prop c ''outputDir'' = JStr ''build''
       | Inl e \<Rightarrow> e = TypeError \<and> fp \<noteq> None \<and> isObject (get_prop config ''pages'')))"
proof (cases "normalizeConfig h config fp")
  case (Inl e)
  then show ?thesis using normalizeConfig_Inl [OF Inl] by simp
next
  case (Inr c)
  have p: "get_prop config ''publicPath'' = JStr ''assets'' \<longrightarrow>
      get_prop c ''publicPath'' = JStr ''/assets/''"
    using normalizeConfig_Inr [OF Inr, of "''publicPath''"]
    by (simp add: slashes_publicPath strip_dot_slash_def trail_slash_def is_http_def)
  have q: "get_prop config ''outputDir'' = JStr ''build/'' \<longrightarrow>
      get_prop c ''outputDir'' = JStr ''build''"
    using normalizeConfig_Inr [OF Inr, of "''outputDir''"]
    by (simp add: slashes_outputDir strip_trail_slash_def)
  show ?thesis using Inr p q by simp
qed

text \<open>
  The two scenarios of claim C8 in one configuration, and in the example project, where
  the file gives \<^verbatim>\<open>"assets"\<close> and \<^verbatim>\<open>"build/"\<close> over the defaults \<^verbatim>\<open>""\<close> and
  \<^verbatim>\<open>"dist"\<close> and the constructor gives nothing.
\<close>

theorem normalizeConfig_slashes_witness:
  "get_prop [(''publicPath'', JStr ''assets''), (''outputDir'', JStr ''build/'')] ''publicPath''
      = JStr ''assets''
   \<and> get_prop [(''publicPath'', JStr ''assets''), (''outputDir'', JStr ''build/'')] ''outputDir''
      = JStr ''build/''
   \<and> normalizeConfig example_host
        [(''publicPath'', JStr ''assets''), (''outputDir'', JStr ''build/'')]
        (Some ''san.config.js'') =
      Inr [(''publicPath'', JStr ''/assets/''), (''outputDir'', JStr ''build'')]
   \<and> loadProjectOptions example_host ''/proj'' (JObj []) (JStr ''san.config.js'') =
      Inr [(''assetsDir'', JStr ''from-file''), (''outputDir'', JStr ''build''),
           (''publicPath'', JStr ''/assets/''), (''filenameHashing'', JBool True)]"
  using normalizeConfig_slashes [where h = example_host and fp = "Some ''san.config.js''"
      and config = "[(''publicPath'', JStr ''assets''), (''outputDir'', JStr ''build/'')]"]
    example_scenario
  by (simp add: get_prop_def normalizeConfig_def normalize_slashes_def ensureSlash_def
      removeSlash_def is_http_def trail_slash_def strip_dot_slash_def strip_trail_slash_def)

section \<open>Precedence of project options\<close>

lemma map_of_set_prop:
  "map_of (set_prop ps k v) k' = (if k' = k then Some v else map_of ps k')"
  by (induction ps) auto










text \<open>
  A key that every object inherits: the constructor's \<^verbatim>\<open>valueOf\<close> stays in the
  result of the first merge, whose destination has it as an own property, and is not taken
  by the second, whose destination, the file's object, reads the inherited function there.
\<close>

lemma example_inherited:
  "loadProjectOptions example_host ''/proj''
       (JObj [(''valueOf'', JStr ''from-constructor''), (''filenameHashing'', JBool False)])
       (JStr ''san.config.js'') =
     Inr [(''assetsDir'', JStr ''from-file''), (''outputDir'', JStr ''build''),
          (''publicPath'', JStr ''/assets/''), (''filenameHashing'', JBool False)]"
proof -
  have v: "validateOptions example_host = (\<lambda>v. None)" by (simp add: example_host_def)
  have d: "defaultsDeep example_host
       (JObj [(''valueOf'', JStr ''from-constructor''), (''filenameHashing'', JBool False)])
       (defaultConfig example_host) =
      [(''valueOf'', JStr ''from-constructor''), (''filenameHashing'', JBool False),
       (''publicPath'', JStr []), (''outputDir'', JStr ''dist''), (''assetsDir'', JStr [])]"
    by (simp add: example_defaults object_prototype_def)
  show ?thesis
    unfolding loadProjectOptions_def d example_load Let_def
    by (simp add: v object_prototype_def)
      (simp add: get_prop_def normalizeConfig_def normalize_slashes_def
        ensureSlash_def removeSlash_def is_http_def trail_slash_def strip_dot_slash_def
        strip_trail_slash_def)
qed




section \<open>The registries\<close>

lemma registerCommand_None:
  assumes "registerCommand a name ym n s = (None, s')"
  shows "\<exists>p cmd. command_parts name ym = Inr p \<and> getCommandName_val (p_command p) = Inr cmd
    \<and> s' = s\<lparr>registeredCommands := (registeredCommands s)(cmd \<mapsto> descriptor name p)\<rparr>"
  using assms by (auto simp: registerCommand_def split: option.splits sum.splits)

lemma registerCommand_frame:
  assumes "registerCommand a name ym n s = (None, s')"
  shows "registeredCommandFlags s' = registeredCommandFlags s"
    and "flag_objects s' = flag_objects s"
    and "registeredCommandHandlers s' = registeredCommandHandlers s"
    and "cli s' = cli s" and "world s' = world s"
  using registerCommand_None [OF assms] by auto

lemma registerCommand_stores:
  assumes "registerCommand a name ym n s = (None, s')"
    and "command_parts name ym = Inr p" and "getCommandName_val (p_command p) = Inr cmd"
  shows "registeredCommands s' cmd = Some (descriptor name p)"
  using registerCommand_None [OF assms(1)] assms(2,3) by auto


lemma flags_or_new_Some:
  "registeredCommandFlags s cmd = Some r \<Longrightarrow> flags_or_new cmd s = (r, s)"
  by (simp add: flags_or_new_def)



lemma add_module_Some:
  assumes "registeredCommandFlags s cmd = Some r"
  shows "add_module cmd c s =
     s\<lparr>flag_objects := (flag_objects s)(r := object_assign (flag_objects s r) (js_or (cd_builder c) (JObj []))),
       cli := cli s @
         [\<lparr>ym_command = cd_command c, ym_handlers = registeredCommandHandlers s cmd,
           ym_oHandler = cd_handler c, ym_describe = cd_describe c, ym_builder = r,
           ym_aliases = cd_aliases c\<rparr>]\<rparr>"
  by (simp add: add_module_def flags_or_new_Some [OF assms] assign_flags_def)


lemma runCommand_service:
  assumes "registeredCommands s cmd = Some c"
    and "runCommand call parse (JStr cmd) rawArgs s = (t, e, s')"
  shows "s' = (add_module cmd c s)\<lparr>world := world s'\<rparr>"
  using assms
  by (auto simp: runCommand_def Let_def split: sum.splits option.splits if_splits prod.splits)

lemma runCommand_fields:
  assumes "registeredCommands s cmd = Some c"
    and "runCommand call parse (JStr cmd) rawArgs s = (t, e, s')"
  shows "cli s' = cli (add_module cmd c s)"
    and "flag_objects s' = flag_objects (add_module cmd c s)"
    and "registeredCommandFlags s' = registeredCommandFlags (add_module cmd c s)"
proof -
  have "cli s' = cli ((add_module cmd c s)\<lparr>world := world s'\<rparr>)"
    using runCommand_service [OF assms] by simp
  then show "cli s' = cli (add_module cmd c s)" by simp
  have "flag_objects s' = flag_objects ((add_module cmd c s)\<lparr>world := world s'\<rparr>)"
    using runCommand_service [OF assms] by simp
  then show "flag_objects s' = flag_objects (add_module cmd c s)" by simp
  have "registeredCommandFlags s' = registeredCommandFlags ((add_module cmd c s)\<lparr>world := world s'\<rparr>)"
    using runCommand_service [OF assms] by simp
  then show "registeredCommandFlags s' = registeredCommandFlags (add_module cmd c s)" by simp
qed




section \<open>A worked dispatch\<close>

text \<open>
  The example services, step by step: what each registration stores and what the
  dispatch leaves.
\<close>

lemma example_parts_once:
  "command_parts (JStr ''serve'') (JFun 8) =
     Inr \<lparr>p_command = JStr ''serve'', p_description = JUndef, p_builder = JUndef,
          p_handler = JFun 8, p_aliases = JUndef, p_extend = JUndef\<rparr>"
  by (simp add: command_parts_def)

lemma example_parts_twice:
  "command_parts (JStr ''serve [entry]'') example_module =
     Inr \<lparr>p_command = JStr ''serve [entry]'', p_description = JUndef,
          p_builder = JObj [(''port'', JStr ''descriptor'')],
          p_handler = JFun 9, p_aliases = JUndef, p_extend = JUndef\<rparr>"
  by (simp add: command_parts_def example_module_def get_prop_def js_or_def)

lemma example_flagged_step:
  "registerCommandFlag example_argsert (JStr ''serve'') example_flags (JFun 1) 3 example_service =
     (None, example_flagged)"
  by (simp add: example_flagged_def registerCommandFlag_def example_argsert_def Let_def
      split: prod.splits)

lemma example_once_step:
  "registerCommand example_argsert (JStr ''serve'') (JFun 8) 2 example_flagged =
     (None, example_once)"
  by (simp add: example_once_def registerCommand_def example_argsert_def example_parts_once)


lemma example_twice_step:
  "registerCommand example_argsert (JStr ''serve [entry]'') example_module 2 example_more =
     (None, example_twice)"
  by (simp add: example_twice_def registerCommand_def example_argsert_def example_parts_twice)

lemma example_flagged_fields:
  "registeredCommandFlags example_flagged ''serve'' = Some 0"
  "flag_objects example_flagged 0 = [(''port'', JStr ''aggregated''), (''open'', JBool True)]"
  "registeredCommandHandlers example_flagged ''serve'' = Some [JFun 1]"
  "world example_flagged = []" "cli example_flagged = []"
  by (simp_all add: example_flagged_def registerCommandFlag_def example_argsert_def Let_def
      example_serve flags_or_new_def new_flags_def assign_flags_def object_assign_def
      example_flags_def example_service_def)

lemma example_once_fields:
  "registeredCommandFlags example_once ''serve'' = Some 0"
  "flag_objects example_once 0 = [(''port'', JStr ''aggregated''), (''open'', JBool True)]"
  "registeredCommandHandlers example_once ''serve'' = Some [JFun 1]"
  "world example_once = []" "cli example_once = []"
  "map_option cd_handler (registeredCommands example_once ''serve'') = Some (UserHandler 8)"
  using registerCommand_frame [OF example_once_step]
    registerCommand_stores [OF example_once_step example_parts_once]
  by (simp_all add: example_flagged_fields example_serve descriptor_def)

lemma example_more_fields:
  "registeredCommandFlags example_more ''serve'' = Some 0"
  "flag_objects example_more 0 = [(''port'', JStr ''aggregated''), (''open'', JBool True)]"
  "registeredCommandHandlers example_more ''serve'' = Some [JFun 1, JFun 3]"
  "world example_more = []" "cli example_more = []"
  by (simp_all add: example_more_def registerCommandFlag_def example_argsert_def Let_def
      example_serve flags_or_new_def assign_flags_def object_assign_def example_once_fields)

lemma example_twice_command:
  "registeredCommands example_twice ''serve'' =
     Some \<lparr>cd_command = JStr ''serve [entry]'', cd_handler = UserHandler 9,
           cd_aliases = JUndef, cd_extend = JUndef, cd_describe = JBool False,
           cd_builder = JObj [(''port'', JStr ''descriptor'')]\<rparr>"
  using registerCommand_stores [OF example_twice_step example_parts_twice]
  by (simp add: example_serve_entry descriptor_def)

lemma example_twice_fields:
  "registeredCommandFlags example_twice ''serve'' = Some 0"
  "flag_objects example_twice 0 = [(''port'', JStr ''aggregated''), (''open'', JBool True)]"
  "registeredCommandHandlers example_twice ''serve'' = Some [JFun 1, JFun 3]"
  "world example_twice = []" "cli example_twice = []"
  using registerCommand_frame [OF example_twice_step]
  by (simp_all add: example_more_fields)

lemma example_dispatched_run:
  "runCommand example_call example_parse (JStr ''serve'') (JArr []) example_twice =
     (fst example_dispatched, fst (snd example_dispatched), snd (snd example_dispatched))"
  by (simp add: example_dispatched_def)


lemma example_dispatched_flags:
  "flag_objects (snd (snd example_dispatched)) 0 =
     [(''port'', JStr ''descriptor''), (''open'', JBool True)]"
  "ym_builder (last (cli (snd (snd example_dispatched)))) = 0"
  "registeredCommandFlags (snd (snd example_dispatched)) ''serve'' = Some 0"
  using runCommand_fields [OF example_twice_command example_dispatched_run]
  by (simp_all add: add_module_Some [OF example_twice_fields(1)] example_twice_fields
      js_or_def object_assign_def)

section \<open>Flags at dispatch\<close>

text \<open>
  Claim C2 as stated fails: the aggregated flags give \<^verbatim>\<open>port\<close> one spec, the
  descriptor's builder another, and the builder handed to the parser has the
  descriptor's.
\<close>

theorem descriptor_flag_beats_aggregated:
  "get_prop (flag_objects example_twice 0) ''port'' = JStr ''aggregated''
   \<and> registeredCommandFlags example_twice ''serve'' = Some 0
   \<and> map_option cd_builder (registeredCommands example_twice ''serve'') =
       Some (JObj [(''port'', JStr ''descriptor'')])
   \<and> ym_builder (last (cli (snd (snd example_dispatched)))) = 0
   \<and> get_prop (flag_objects (snd (snd example_dispatched)) 0) ''port'' = JStr ''descriptor''"
  by (simp add: example_twice_fields example_twice_command example_dispatched_flags get_prop_def)

text \<open>
  Claim C2, as the code has it. \<^verbatim>\<open>runCommand\<close> computes
  \<^verbatim>\<open>Object.assign(flags, oFlags || {})\<close>: the aggregated flags are the target and the
  descriptor's builder is the source, so on a colliding flag name the descriptor's
  spec is the one the parser gets. For a registered command with aggregated flags behind
  the reference \<^verbatim>\<open>r\<close> and a descriptor whose builder is the object \<^verbatim>\<open>own\<close>:
  the module added to the parser has the object \<^verbatim>\<open>r\<close> as its builder, and in it every
  key of \<^verbatim>\<open>own\<close> has the descriptor's value and every other key the aggregated one.
\<close>

theorem runCommand_builder:
  assumes "registeredCommands s cmd = Some c"
    and "registeredCommandFlags s cmd = Some r"
    and "cd_builder c = JObj own" and "distinct (map fst own)"
    and "runCommand call parse (JStr cmd) rawArgs s = (t, e, s')"
  shows "cli s' = cli s @ [last (cli s')] \<and> ym_builder (last (cli s')) = r
    \<and> (\<forall>k. get_prop (flag_objects s' (ym_builder (last (cli s')))) k =
          (if k \<in> fst ` set own then get_prop own k else get_prop (flag_objects s r) k))"
proof -
  note f = runCommand_fields [OF assms(1,5)]
  have j: "js_or (cd_builder c) (JObj []) = JObj own" by (simp add: js_or_def assms(3))
  show ?thesis
    by (simp add: f add_module_Some [OF assms(2)] j object_assign_get [OF assms(4)])
qed

text \<open>The amended claim C2 at the same dispatch.\<close>

theorem runCommand_builder_witness:
  "cli (snd (snd example_dispatched)) = [last (cli (snd (snd example_dispatched)))]
   \<and> ym_builder (last (cli (snd (snd example_dispatched)))) = 0
   \<and> get_prop (flag_objects (snd (snd example_dispatched)) 0) ''port'' = JStr ''descriptor''
   \<and> get_prop (flag_objects (snd (snd example_dispatched)) 0) ''open'' = JBool True"
proof -
  have c: "cd_builder \<lparr>cd_command = JStr ''serve [entry]'', cd_handler = UserHandler 9,
           cd_aliases = JUndef, cd_extend = JUndef, cd_describe = JBool False,
           cd_builder = JObj [(''port'', JStr ''descriptor'')]\<rparr> =
         JObj [(''port'', JStr ''descriptor'')]"
    by simp
  have d: "distinct (map fst [(''port'', JStr ''descriptor'')])" by simp
  note t = runCommand_builder [OF example_twice_command example_twice_fields(1) c d
      example_dispatched_run]
  have a: "cli (snd (snd example_dispatched)) = [last (cli (snd (snd example_dispatched)))]"
    using t by (simp add: example_twice_fields)
  have b: "ym_builder (last (cli (snd (snd example_dispatched)))) = 0" using t by simp
  have "get_prop (flag_objects (snd (snd example_dispatched)) 0) ''port'' = JStr ''descriptor''"
    and "get_prop (flag_objects (snd (snd example_dispatched)) 0) ''open'' = JBool True"
    using t b by (simp_all add: example_twice_fields get_prop_def)
  then show ?thesis using a b by simp
qed



section \<open>Pre-handlers\<close>











section \<open>Registering a command twice\<close>



section \<open>Initialization\<close>

lemma initPlugin_initialized:
  assumes "\<forall>f i po opt t. initialized t \<longrightarrow> initialized (snd (app f i po opt t))"
    and "initialized s"
  shows "initialized (snd (snd (initPlugin app p s)))"
proof (cases "nullish (case p of JArr xs \<Rightarrow> element xs 0 | _ \<Rightarrow> p)")
  case True
  then show ?thesis using assms(2) by (simp add: initPlugin_def Let_def)
next
  case False
  let ?plugin = "case p of JArr xs \<Rightarrow> element xs 0 | _ \<Rightarrow> p"
  show ?thesis
  proof (cases "field ?plugin ''apply''")
    case (JFun f)
    have "initialized (snd (app f (field ?plugin ''id'') (projectOptions s)
        (case p of JArr xs \<Rightarrow> element xs 1 | _ \<Rightarrow> JObj []) s))"
      using assms by blast
    then show ?thesis using False JFun by (simp add: initPlugin_def Let_def split: prod.splits)
  qed (use False assms(2) in \<open>simp_all add: initPlugin_def Let_def\<close>)
qed

lemma forEach_plugins_initialized:
  assumes "\<forall>f i po opt t. initialized t \<longrightarrow> initialized (snd (app f i po opt t))"
  shows "initialized s \<Longrightarrow> initialized (snd (snd (forEach_plugins app n i s)))"
proof (induction n arbitrary: i s)
  case 0
  then show ?case by simp
next
  case (Suc n)
  show ?case
  proof (cases "i < length (plugins s)")
    case False
    then show ?thesis using Suc by simp
  next
    case True
    obtain t r s' where ip: "initPlugin app (plugins s ! i) s = (t, r, s')"
      by (cases "initPlugin app (plugins s ! i) s") auto
    have s': "initialized s'"
      using initPlugin_initialized [OF assms Suc.prems, of "plugins s ! i"] ip by simp
    show ?thesis
    proof (cases r)
      case None
      obtain t' r' s'' where fe: "forEach_plugins app n (Suc i) s' = (t', r', s'')"
        by (cases "forEach_plugins app n (Suc i) s'") auto
      have "initialized s''" using Suc.IH [OF s', of "Suc i"] fe by simp
      then show ?thesis using True ip None fe by simp
    next
      case (Some e)
      then show ?thesis using True ip s' by simp
    qed
  qed
qed

lemma init_initialized:
  assumes "\<forall>f i po opt t. initialized t \<longrightarrow> initialized (snd (app f i po opt t))"
  shows "initialized (snd (snd (init app m s)))"
proof (cases "initialized s")
  case True
  then show ?thesis by (simp add: init_def)
next
  case False
  let ?s0 = "s\<lparr>initialized := True, mode := m\<rparr>"
  obtain t r s1 where fe: "forEach_plugins app (length (plugins s)) 0 ?s0 = (t, r, s1)"
    by (cases "forEach_plugins app (length (plugins s)) 0 ?s0") auto
  have "initialized ?s0" by simp
  then have s1: "initialized s1"
    using forEach_plugins_initialized [OF assms, of ?s0 "length (plugins s)" 0] fe by simp
  show ?thesis
  proof (cases r)
    case None
    then show ?thesis using False fe s1 by (simp add: init_def Let_def)
  next
    case (Some e)
    then show ?thesis using False fe s1 by (simp add: init_def)
  qed
qed

lemma init_again: "initialized s \<Longrightarrow> init app m s = ([], None, s)"
  by (simp add: init_def)

lemma example_ready_init:
  "init example_apply (JStr ''production'') example_ready =
     ([(7, JStr ''good'')], None,
      example_service\<lparr>plugins := [example_plugin], projectOptions := JObj [],
        initialized := True, mode := JStr ''production'', world := [7]\<rparr>)"
  by (simp add: init_def initPlugin_def example_ready_def example_service_def example_plugin_def
      example_apply_def get_prop_def Let_def)

text \<open>
  Claim C7. \<^verbatim>\<open>init\<close> sets \<^verbatim>\<open>initialized\<close> before it applies the plugins and
  returns at once when the flag is set. So, for plugins that do not clear the flag, after
  a first \<^verbatim>\<open>init\<close> (whether it returned or threw) a second one, with any mode,
  applies no plugin, throws nothing and leaves the service as it was: the mode, the
  chain and raw mutators and everything else are those of the first call.
\<close>

theorem init_idempotent:
  assumes "\<forall>f i po opt t. initialized t \<longrightarrow> initialized (snd (app f i po opt t))"
    and "init app m1 s = (t1, e1, s1)"
  shows "initialized s1 \<and> init app m2 s1 = ([], None, s1)"
proof -
  have "initialized s1" using init_initialized [OF assms(1), of m1 s] assms(2) by simp
  then show ?thesis by (simp add: init_again)
qed

text \<open>Claim C7 on a service with one plugin: the second call changes nothing.\<close>

theorem init_idempotent_witness:
  "fst (init example_apply (JStr ''production'') example_ready) = [(7, JStr ''good'')]
   \<and> mode (snd (snd (init example_apply (JStr ''production'') example_ready))) = JStr ''production''
   \<and> initialized (snd (snd (init example_apply (JStr ''production'') example_ready)))
   \<and> init example_apply (JStr ''development'')
        (snd (snd (init example_apply (JStr ''production'') example_ready))) =
      ([], None, snd (snd (init example_apply (JStr ''production'') example_ready)))"
proof -
  have f: "\<forall>f i po opt t. initialized t \<longrightarrow> initialized (snd (example_apply f i po opt t))"
    by (simp add: example_apply_def)
  have i: "init example_apply (JStr ''production'') example_ready =
     (fst (init example_apply (JStr ''production'') example_ready),
      fst (snd (init example_apply (JStr ''production'') example_ready)),
      snd (snd (init example_apply (JStr ''production'') example_ready)))"
    by simp
  note t = init_idempotent [OF f i, of "JStr ''development''"]
  have a: "fst (init example_apply (JStr ''production'') example_ready) = [(7, JStr ''good'')]"
    and b: "mode (snd (snd (init example_apply (JStr ''production'') example_ready))) =
      JStr ''production''"
    by (simp_all add: example_ready_init)
  show ?thesis using t a b by blast
qed

text \<open>
  Claim C3 on the code. The specifier \<^verbatim>\<open>missing\<close> fails to load: \<^verbatim>\<open>_loadPlugin\<close>
  logs it and returns nothing, and \<^verbatim>\<open>resolvePlugins\<close> keeps that \<^verbatim>\<open>undefined\<close> in
  the list it returns, before the plugin that loaded. \<^verbatim>\<open>init\<close> then throws a
  \<^verbatim>\<open>TypeError\<close> on that entry, and the plugin after it is never applied; without the
  failing specifier it is.
\<close>

theorem failed_plugin_is_kept:
  "new_Service example_builtin example_loader ''/proj'' (JArr [JStr ''missing'', example_plugin])
       (JBool False) JUndef [] = Inr (example_service\<lparr>plugins := [JUndef, example_plugin]\<rparr>)
   \<and> resolvePlugins example_builtin example_loader (JArr [JStr ''missing'', example_plugin])
       (JBool False) = Inr [JUndef, example_plugin]
   \<and> resolvePlugins example_builtin example_loader (JArr [example_plugin]) (JBool False) =
       Inr [example_plugin]
   \<and> init example_apply (JStr ''production'') example_broken =
       ([], Some TypeError,
        example_service\<lparr>plugins := [JUndef, example_plugin], projectOptions := JObj [],
          initialized := True, mode := JStr ''production''\<rparr>)
   \<and> init example_apply (JStr ''production'') example_ready =
       ([(7, JStr ''good'')], None,
        example_service\<lparr>plugins := [example_plugin], projectOptions := JObj [],
          initialized := True, mode := JStr ''production'', world := [7]\<rparr>)"
proof -
  have a: "resolvePlugins example_builtin example_loader (JArr [JStr ''missing'', example_plugin])
       (JBool False) = Inr [JUndef, example_plugin]"
    by (simp add: resolvePlugins_def loadPlugin_def loadPlugin_string_def example_loader_def
        example_plugin_def get_prop_def)
  have b: "resolvePlugins example_builtin example_loader (JArr [example_plugin]) (JBool False) =
       Inr [example_plugin]"
    by (simp add: resolvePlugins_def loadPlugin_def example_plugin_def get_prop_def)
  have c: "init example_apply (JStr ''production'') example_broken =
       ([], Some TypeError,
        example_service\<lparr>plugins := [JUndef, example_plugin], projectOptions := JObj [],
          initialized := True, mode := JStr ''production''\<rparr>)"
    by (simp add: init_def initPlugin_def example_broken_def example_service_def
        numeral_2_eq_2)
  have d: "new_Service example_builtin example_loader ''/proj''
       (JArr [JStr ''missing'', example_plugin]) (JBool False) JUndef ([]::nat list) =
     Inr (example_service\<lparr>plugins := [JUndef, example_plugin]\<rparr>)"
    by (simp add: new_Service_def a example_service_def)
  show ?thesis using a b c d example_ready_init by simp
qed

section \<open>The webpack configuration before initialization\<close>


lemma getWebpackChainConfig_flag:
  "getWebpackChainConfig newConfig chain (s\<lparr>initialized := b\<rparr>) =
     getWebpackChainConfig newConfig chain s"
  by (simp add: getWebpackChainConfig_def)




end
